theory Spec2Isabelle
  imports Main
begin

section \<open>Data model (attachment.go, lines 18-35)\<close>

text \<open>
  Go strings are byte sequences, and so is \<^typ>\<open>string\<close>. The two \<open>int\<close> fields are never
  computed with, so they are plain integers here.
\<close>

type_synonym bytes = string

record AttachmentMetadata =
  Comment :: string
  MediaType :: string

record AttachmentVersion =
  Number :: int

record Attachment =
  Id' :: string
  Type :: string
  Status :: string
  Title :: string
  Metadata :: AttachmentMetadata
  Version :: AttachmentVersion

record Attachments =
  Results :: "Attachment list"
  Size :: int

section \<open>Errors and panics\<close>

text \<open>
  Go's \<open>error\<close> values. The only error attachment.go creates itself is
  \<open>fmt.Errorf("empty list")\<close>; all the others are handed up from the standard library or
  from the transport, and are tagged by their origin.
\<close>

datatype error =
    EmptyList
  | UrlError string
  | IOError string
  | JsonError string
  | TransportError string

text \<open>A run-time panic: \<open>s[i:]\<close> with \<open>i > len(s)\<close>, carrying \<open>i\<close> and \<open>len(s)\<close>.\<close>

datatype panic = SliceBoundsOutOfRange nat nat

definition slice_from :: "nat \<Rightarrow> string \<Rightarrow> panic + string" where
  "slice_from i s =
     (if i \<le> length s then Inr (drop i s) else Inl (SliceBoundsOutOfRange i (length s)))"

section \<open>The collaborators\<close>

subsection \<open>Multipart bodies and HTTP requests\<close>

text \<open>
  A multipart body is kept as the list of its parts, in the order they were written
  (\<open>CreateFormFile\<close> followed by \<open>io.Copy\<close> gives a file part, \<open>WriteField\<close> a text
  field); its byte encoding is not modelled.
\<close>

datatype part =
    FormFile string string bytes
  | FormField string string

record http_Request =
  Method :: string
  URL :: string
  ContentType :: string
  Body :: "part list"

text \<open>
  What reaches the transport: \<open>client.request(method, url, body, contentType)\<close> or
  \<open>client.sendRequest(req)\<close>. The wire log is the sequence of these calls, oldest first.
\<close>

datatype call =
    Request string string string string
  | SendRequest http_Request

type_synonym wire = "call list"

subsection \<open>The client\<close>

text \<open>
  Modelled from the spec: the \<open>Client\<close> type and its methods \<open>request\<close> and
  \<open>sendRequest\<close> are declared outside attachment.go. Section 6 of the specification gives
  the transport the contract \<open>send(method, url, body, contentType) -> (bytes, error)\<close>.
  Here the answer is a function of the call and of all earlier calls, so a service with
  state is covered, and every call is appended to the wire log.
\<close>

record client =
  Endpoint :: string
  transport :: "wire \<Rightarrow> call \<Rightarrow> error + bytes"

definition request ::
  "client \<Rightarrow> string \<Rightarrow> string \<Rightarrow> string \<Rightarrow> string \<Rightarrow> wire \<Rightarrow> (error + bytes) \<times> wire" where
  "request c method url body contentType w =
     (transport c w (Request method url body contentType),
      w @ [Request method url body contentType])"

definition sendRequest :: "client \<Rightarrow> http_Request \<Rightarrow> wire \<Rightarrow> (error + bytes) \<times> wire" where
  "sendRequest c req w = (transport c w (SendRequest req), w @ [SendRequest req])"

subsection \<open>The standard library\<close>

text \<open>
  The packages attachment.go imports are parameters of the model: \<open>'u\<close> is \<open>*url.URL\<close>,
  \<open>'f\<close> is \<open>*os.File\<close>.
  \<^item> \<open>ParseRequestURI\<close>, \<open>URL_String\<close>, \<open>URL_setRawQuery\<close>, \<open>QueryEscape\<close>: net/url.
  \<^item> \<open>os_Open\<close>; \<open>File_Stat\<close> gives \<open>fi.Name()\<close>, the only use made of the \<open>FileInfo\<close>;
    \<open>io_Copy\<close> gives the bytes copied from the file into the part.
  \<^item> \<open>CreateFormFile_err\<close>, \<open>WriteField_err\<close>, \<open>Close_err\<close>: the error results of the
    multipart writer; \<open>randomBoundary\<close>: the boundary the writer picks.
  \<^item> \<open>NewRequest_err\<close>: the error result of \<open>http.NewRequest(method, url, body)\<close>.
  \<^item> \<open>Unmarshal_Attachments\<close>, \<open>Unmarshal_Attachment\<close>: \<open>json.Unmarshal\<close> into an
    \<open>Attachments\<close> and into an \<open>Attachment\<close> variable.
\<close>

record ('u, 'f) platform =
  ParseRequestURI :: "string \<Rightarrow> error + 'u"
  URL_String :: "'u \<Rightarrow> string"
  URL_setRawQuery :: "'u \<Rightarrow> string \<Rightarrow> 'u"
  QueryEscape :: "string \<Rightarrow> string"
  os_Open :: "string \<Rightarrow> error + 'f"
  File_Stat :: "'f \<Rightarrow> error + string"
  io_Copy :: "'f \<Rightarrow> error + bytes"
  CreateFormFile_err :: "string \<Rightarrow> string \<Rightarrow> error option"
  WriteField_err :: "string \<Rightarrow> string \<Rightarrow> error option"
  Close_err :: "part list \<Rightarrow> error option"
  randomBoundary :: "wire \<Rightarrow> string"
  NewRequest_err :: "string \<Rightarrow> string \<Rightarrow> error option"
  Unmarshal_Attachments :: "bytes \<Rightarrow> error + Attachments"
  Unmarshal_Attachment :: "bytes \<Rightarrow> error + Attachment"

text \<open>\<open>strconv.FormatBool\<close>.\<close>

definition FormatBool :: "bool \<Rightarrow> string" where
  "FormatBool b = (if b then ''true'' else ''false'')"

text \<open>\<open>writer.FormDataContentType()\<close>.\<close>

definition FormDataContentType :: "('u, 'f) platform \<Rightarrow> wire \<Rightarrow> string" where
  "FormDataContentType p w = ''multipart/form-data; boundary='' @ randomBoundary p w"

text \<open>
  \<open>path.Base\<close>: the empty path gives \<open>.\<close>; trailing slashes are removed; what follows the
  last remaining slash is returned; a path of slashes only gives \<open>/\<close>.
\<close>

definition path_Base :: "string \<Rightarrow> string" where
  "path_Base path =
     (if path = [] then ''.''
      else let stripped = rev (dropWhile (\<lambda>c. c = CHR ''/'') (rev path));
               last_elem = rev (takeWhile (\<lambda>c. c \<noteq> CHR ''/'') (rev stripped))
           in if last_elem = [] then ''/'' else last_elem)"

section \<open>Endpoint builder (attachment.go, lines 37-55)\<close>

definition newAttachmentEndpoint :: "client \<Rightarrow> ('u, 'f) platform \<Rightarrow> string \<Rightarrow> error + 'u" where
  "newAttachmentEndpoint c p contentID =
     ParseRequestURI p (Endpoint c @ ''/content/'' @ contentID @ ''/child/attachment'')"

definition attachmentEndpoint ::
  "client \<Rightarrow> ('u, 'f) platform \<Rightarrow> string \<Rightarrow> string \<Rightarrow> error + 'u" where
  "attachmentEndpoint c p contentID attachmentID =
     (case newAttachmentEndpoint c p contentID of
        Inr endpoint \<Rightarrow> ParseRequestURI p (URL_String p endpoint @ ''/'' @ attachmentID)
      | Inl err \<Rightarrow> Inl err)"

definition attachmentDataEndpoint ::
  "client \<Rightarrow> ('u, 'f) platform \<Rightarrow> string \<Rightarrow> string \<Rightarrow> error + 'u" where
  "attachmentDataEndpoint c p contentID attachmentID =
     (case attachmentEndpoint c p contentID attachmentID of
        Inr endpoint \<Rightarrow> ParseRequestURI p (URL_String p endpoint @ ''/data'')
      | Inl err \<Rightarrow> Inl err)"

section \<open>Attachment operations (attachment.go, lines 57-236)\<close>

text \<open>
  Every operation takes the wire log and returns it, extended by the calls it made.
  \<open>DeleteAttachment\<close> returns \<open>None\<close> for Go's \<open>nil\<close> error.
\<close>

definition DeleteAttachment ::
  "client \<Rightarrow> ('u, 'f) platform \<Rightarrow> string \<Rightarrow> string \<Rightarrow> wire \<Rightarrow> error option \<times> wire" where
  "DeleteAttachment c p contentID attachmentID w =
     (case attachmentEndpoint c p contentID attachmentID of
        Inl err \<Rightarrow> (Some err, w)
      | Inr endpoint \<Rightarrow>
          (case request c ''DELETE'' (URL_String p endpoint) '''' '''' w of
             (Inl err, w') \<Rightarrow> (Some err, w')
           | (Inr res, w') \<Rightarrow> (None, w')))"

definition GetAttachment ::
  "client \<Rightarrow> ('u, 'f) platform \<Rightarrow> string \<Rightarrow> string \<Rightarrow> wire \<Rightarrow> (error + Attachment) \<times> wire" where
  "GetAttachment c p contentID attachmentID w =
     (case attachmentEndpoint c p contentID attachmentID of
        Inl err \<Rightarrow> (Inl err, w)
      | Inr endpoint \<Rightarrow>
          (case request c ''GET'' (URL_String p endpoint) '''' '''' w of
             (Inl err, w') \<Rightarrow> (Inl err, w')
           | (Inr res, w') \<Rightarrow>
               (case Unmarshal_Attachments p res of
                  Inl err \<Rightarrow> (Inl err, w')
                | Inr attachments \<Rightarrow>
                    if length (Results attachments) < 1 then (Inl EmptyList, w')
                    else (Inr (Results attachments ! 0), w'))))"

definition GetAttachmentByFilename ::
  "client \<Rightarrow> ('u, 'f) platform \<Rightarrow> string \<Rightarrow> string \<Rightarrow> wire \<Rightarrow> (error + Attachment) \<times> wire" where
  "GetAttachmentByFilename c p contentID filename w =
     (case newAttachmentEndpoint c p contentID of
        Inl err \<Rightarrow> (Inl err, w)
      | Inr endpoint0 \<Rightarrow>
          (let data = ''filename='' @ QueryEscape p filename;
               endpoint = URL_setRawQuery p endpoint0 data
           in case request c ''GET'' (URL_String p endpoint) '''' '''' w of
                (Inl err, w') \<Rightarrow> (Inl err, w')
              | (Inr res, w') \<Rightarrow>
                  (case Unmarshal_Attachments p res of
                     Inl err \<Rightarrow> (Inl err, w')
                   | Inr attachments \<Rightarrow>
                       if length (Results attachments) < 1 then (Inl EmptyList, w')
                       else (Inr (Results attachments ! 0), w'))))"

definition UpdateAttachment ::
  "client \<Rightarrow> ('u, 'f) platform \<Rightarrow> string \<Rightarrow> string \<Rightarrow> string \<Rightarrow> bool \<Rightarrow> wire \<Rightarrow>
     (error + Attachment) \<times> wire" where
  "UpdateAttachment c p contentID attachmentID path minorEdit w =
     (case os_Open p path of
        Inl err \<Rightarrow> (Inl err, w)
      | Inr file \<Rightarrow>
     (case File_Stat p file of
        Inl err \<Rightarrow> (Inl err, w)
      | Inr fi_Name \<Rightarrow>
     (case CreateFormFile_err p ''file'' fi_Name of
        Some err \<Rightarrow> (Inl err, w)
      | None \<Rightarrow>
     (case io_Copy p file of
        Inl err \<Rightarrow> (Inl err, w)
      | Inr content \<Rightarrow>
     (case WriteField_err p ''minorEdit'' (FormatBool minorEdit) of
        Some err \<Rightarrow> (Inl err, w)
      | None \<Rightarrow>
     (let body = [FormFile ''file'' fi_Name content,
                  FormField ''minorEdit'' (FormatBool minorEdit)]
      in case Close_err p body of
        Some err \<Rightarrow> (Inl err, w)
      | None \<Rightarrow>
     (case attachmentDataEndpoint c p contentID attachmentID of
        Inl err \<Rightarrow> (Inl err, w)
      | Inr endpoint \<Rightarrow>
     (case NewRequest_err p ''POST'' (URL_String p endpoint) of
        Some err \<Rightarrow> (Inl err, w)
      | None \<Rightarrow>
     (let req = \<lparr>Method = ''POST'', URL = URL_String p endpoint,
                 ContentType = FormDataContentType p w, Body = body\<rparr>
      in case sendRequest c req w of
        (Inl err, w') \<Rightarrow> (Inl err, w')
      | (Inr res, w') \<Rightarrow>
     (case Unmarshal_Attachment p res of
        Inl err \<Rightarrow> (Inl err, w')
      | Inr attachment \<Rightarrow> (Inr attachment, w')))))))))))"

definition AddAttachment ::
  "client \<Rightarrow> ('u, 'f) platform \<Rightarrow> string \<Rightarrow> string \<Rightarrow> wire \<Rightarrow> (error + Attachment) \<times> wire" where
  "AddAttachment c p contentID path w =
     (case os_Open p path of
        Inl err \<Rightarrow> (Inl err, w)
      | Inr file \<Rightarrow>
     (case File_Stat p file of
        Inl err \<Rightarrow> (Inl err, w)
      | Inr fi_Name \<Rightarrow>
     (case CreateFormFile_err p ''file'' fi_Name of
        Some err \<Rightarrow> (Inl err, w)
      | None \<Rightarrow>
     (case io_Copy p file of
        Inl err \<Rightarrow> (Inl err, w)
      | Inr content \<Rightarrow>
     (let body = [FormFile ''file'' fi_Name content]
      in case Close_err p body of
        Some err \<Rightarrow> (Inl err, w)
      | None \<Rightarrow>
     (case newAttachmentEndpoint c p contentID of
        Inl err \<Rightarrow> (Inl err, w)
      | Inr endpoint \<Rightarrow>
     (case NewRequest_err p ''POST'' (URL_String p endpoint) of
        Some err \<Rightarrow> (Inl err, w)
      | None \<Rightarrow>
     (let req = \<lparr>Method = ''POST'', URL = URL_String p endpoint,
                 ContentType = FormDataContentType p w, Body = body\<rparr>
      in case sendRequest c req w of
        (Inl err, w') \<Rightarrow> (Inl err, w')
      | (Inr res, w') \<Rightarrow>
     (case Unmarshal_Attachments p res of
        Inl err \<Rightarrow> (Inl err, w')
      | Inr attachments \<Rightarrow>
          if length (Results attachments) < 1 then (Inl EmptyList, w')
          else (Inr (Results attachments ! 0), w'))))))))))"

section \<open>Reconciler (attachment.go, lines 238-257)\<close>

text \<open>
  One turn of the \<open>for\<close> loop, up to the point where \<open>attachment, err\<close> are assigned. The
  arguments of the \<open>UpdateAttachment\<close> call are evaluated before the call, so the slice
  \<open>attachment.Id[3:]\<close> can panic before anything is sent.
\<close>

definition AddUpdateAttachments_file ::
  "client \<Rightarrow> ('u, 'f) platform \<Rightarrow> string \<Rightarrow> string \<Rightarrow> wire \<Rightarrow>
     (panic + (error + Attachment)) \<times> wire" where
  "AddUpdateAttachments_file c p contentID f w =
     (let filename = path_Base f
      in case GetAttachmentByFilename c p contentID filename w of
           (Inl err, w1) \<Rightarrow>
             (case AddAttachment c p contentID f w1 of (r, w2) \<Rightarrow> (Inr r, w2))
         | (Inr attachment, w1) \<Rightarrow>
             (case slice_from 3 (Id' attachment) of
                Inl pn \<Rightarrow> (Inl pn, w1)
              | Inr attachmentID \<Rightarrow>
                  (case UpdateAttachment c p contentID attachmentID f True w1 of
                     (r, w2) \<Rightarrow> (Inr r, w2))))"

text \<open>The loop over \<open>files\<close>, with the two accumulators \<open>results\<close> and \<open>errors\<close>.\<close>

fun AddUpdateAttachments_loop ::
  "client \<Rightarrow> ('u, 'f) platform \<Rightarrow> string \<Rightarrow> string list \<Rightarrow> Attachment list \<Rightarrow> error list \<Rightarrow>
     wire \<Rightarrow> (panic + Attachment list \<times> error list) \<times> wire" where
  "AddUpdateAttachments_loop c p contentID [] results errors w = (Inr (results, errors), w)"
| "AddUpdateAttachments_loop c p contentID (f # files) results errors w =
     (case AddUpdateAttachments_file c p contentID f w of
        (Inl pn, w') \<Rightarrow> (Inl pn, w')
      | (Inr (Inr attachment), w') \<Rightarrow>
          AddUpdateAttachments_loop c p contentID files (results @ [attachment]) errors w'
      | (Inr (Inl err), w') \<Rightarrow>
          AddUpdateAttachments_loop c p contentID files results (errors @ [err]) w')"

definition AddUpdateAttachments ::
  "client \<Rightarrow> ('u, 'f) platform \<Rightarrow> string \<Rightarrow> string list \<Rightarrow> wire \<Rightarrow>
     (panic + Attachment list \<times> error list) \<times> wire" where
  "AddUpdateAttachments c p contentID files w =
     AddUpdateAttachments_loop c p contentID files [] [] w"

section \<open>Derived forms of the operations\<close>

text \<open>
  The three list-decoding operations end in the same steps: decode the envelope, fail on an
  empty \<open>results\<close> list, return element 0. \<open>decode_first\<close> names these steps.
\<close>

definition decode_first :: "('u, 'f) platform \<Rightarrow> bytes \<Rightarrow> error + Attachment" where
  "decode_first p res =
     (case Unmarshal_Attachments p res of
        Inl err \<Rightarrow> Inl err
      | Inr attachments \<Rightarrow>
          (case Results attachments of [] \<Rightarrow> Inl EmptyList | a # _ \<Rightarrow> Inr a))"

text \<open>
  \<open>AddAttachment\<close> and \<open>UpdateAttachment\<close> begin with the same local steps (open, stat,
  create the file part, copy, and for an update write the \<open>minorEdit\<close> field, then close
  the writer). \<open>upload_body\<close> is the body they build, or the first error of these steps;
  \<open>post_request\<close> is the request they hand to \<open>sendRequest\<close>.
\<close>

definition upload_body :: "('u, 'f) platform \<Rightarrow> string \<Rightarrow> bool option \<Rightarrow> error + part list" where
  "upload_body p path minorEdit =
     (case os_Open p path of
        Inl err \<Rightarrow> Inl err
      | Inr file \<Rightarrow>
     (case File_Stat p file of
        Inl err \<Rightarrow> Inl err
      | Inr fi_Name \<Rightarrow>
     (case CreateFormFile_err p ''file'' fi_Name of
        Some err \<Rightarrow> Inl err
      | None \<Rightarrow>
     (case io_Copy p file of
        Inl err \<Rightarrow> Inl err
      | Inr content \<Rightarrow>
     (case minorEdit of
        None \<Rightarrow>
          (case Close_err p [FormFile ''file'' fi_Name content] of
             Some err \<Rightarrow> Inl err
           | None \<Rightarrow> Inr [FormFile ''file'' fi_Name content])
      | Some b \<Rightarrow>
          (case WriteField_err p ''minorEdit'' (FormatBool b) of
             Some err \<Rightarrow> Inl err
           | None \<Rightarrow>
          (case Close_err p [FormFile ''file'' fi_Name content,
                             FormField ''minorEdit'' (FormatBool b)] of
             Some err \<Rightarrow> Inl err
           | None \<Rightarrow> Inr [FormFile ''file'' fi_Name content,
                            FormField ''minorEdit'' (FormatBool b)])))))))"

definition post_request :: "client \<Rightarrow> ('u, 'f) platform \<Rightarrow> 'u \<Rightarrow> part list \<Rightarrow> wire \<Rightarrow> http_Request" where
  "post_request c p endpoint body w =
     \<lparr>Method = ''POST'', URL = URL_String p endpoint,
      ContentType = FormDataContentType p w, Body = body\<rparr>"

text \<open>The URL \<open>GetAttachmentByFilename\<close> asks for.\<close>

definition filename_url :: "('u, 'f) platform \<Rightarrow> 'u \<Rightarrow> string \<Rightarrow> string" where
  "filename_url p endpoint filename =
     URL_String p (URL_setRawQuery p endpoint (''filename='' @ QueryEscape p filename))"

section \<open>Notions used by the properties\<close>

text \<open>
  The endpoint shapes of section 6 of the specification, as plain text:
  \<open>{base}/content/{contentID}/child/attachment[/{attachmentID}[/data]]\<close>.
\<close>

definition collection_url :: "client \<Rightarrow> string \<Rightarrow> string" where
  "collection_url c contentID = Endpoint c @ ''/content/'' @ contentID @ ''/child/attachment''"

definition attachment_url :: "client \<Rightarrow> string \<Rightarrow> string \<Rightarrow> string" where
  "attachment_url c contentID attachmentID = collection_url c contentID @ ''/'' @ attachmentID"

definition data_url :: "client \<Rightarrow> string \<Rightarrow> string \<Rightarrow> string" where
  "data_url c contentID attachmentID = attachment_url c contentID attachmentID @ ''/data''"

text \<open>
  \<open>prints_back p s\<close>: the URL library parses \<open>s\<close> and prints the parsed URL as \<open>s\<close> again.
  Go's net/url does so for a URL that is already in its escaped form with a lower-case
  scheme; it does not for a string it re-escapes when printing (a space or \<open>#\<close> in the
  path, for one).
\<close>

definition prints_back :: "('u, 'f) platform \<Rightarrow> string \<Rightarrow> bool" where
  "prints_back p s =
     (case ParseRequestURI p s of Inl err \<Rightarrow> False | Inr u \<Rightarrow> URL_String p u = s)"

text \<open>
  A pair of identifiers is well formed for a client when the content identifier holds no
  slash and the two URLs the builder parses on the way print back as they were written.
\<close>

definition wellformed_pair :: "client \<Rightarrow> ('u, 'f) platform \<Rightarrow> string \<Rightarrow> string \<Rightarrow> bool" where
  "wellformed_pair c p contentID attachmentID =
     (CHR ''/'' \<notin> set contentID \<and>
      prints_back p (collection_url c contentID) \<and>
      prints_back p (attachment_url c contentID attachmentID))"

text \<open>
  The same platform, except that every decoded envelope reports the size \<open>g res\<close> in
  place of the one it carried.
\<close>

definition override_size :: "(bytes \<Rightarrow> int) \<Rightarrow> ('u, 'f) platform \<Rightarrow> ('u, 'f) platform" where
  "override_size g p =
     p\<lparr>Unmarshal_Attachments :=
         (\<lambda>res. case Unmarshal_Attachments p res of
                  Inl err \<Rightarrow> Inl err
                | Inr attachments \<Rightarrow> Inr (attachments\<lparr>Size := g res\<rparr>))\<rparr>"

text \<open>
  Every attachment a lookup can return (element 0 of a decoded envelope) has an identifier
  of at least three characters.
\<close>

definition ids_prefixed :: "('u, 'f) platform \<Rightarrow> bool" where
  "ids_prefixed p =
     (\<forall>res attachments a rest.
        Unmarshal_Attachments p res = Inr attachments \<longrightarrow>
        Results attachments = a # rest \<longrightarrow> 3 \<le> length (Id' a))"

section \<open>A concrete service, for examples\<close>

text \<open>
  A small platform on which the operations can be run. URLs are kept as their strings;
  \<open>ParseRequestURI\<close> refuses the empty string and a string that has neither a scheme nor
  a leading slash, as Go does, and accepts what the examples below build. The one local
  file is \<open>docs/a.png\<close>. A response body \<open>list:ID\<close> stands for an envelope with one
  attachment of that identifier, \<open>empty\<close> for an envelope with no results, \<open>obj:ID\<close> for a
  single attachment object.
\<close>

definition sample_attachment :: "string \<Rightarrow> Attachment" where
  "sample_attachment i =
     \<lparr>Id' = i, Type = ''attachment'', Status = ''current'', Title = ''a.png'',
      Metadata = \<lparr>Comment = [], MediaType = ''image/png''\<rparr>,
      Version = \<lparr>Number = 1\<rparr>\<rparr>"

definition sample_platform :: "(string, string \<times> bytes) platform" where
  "sample_platform =
     \<lparr>ParseRequestURI =
        (\<lambda>s. if s = [] then Inl (UrlError ''empty url'')
             else if take 7 s = ''http://'' \<or> take 1 s = ''/'' then Inr s
             else Inl (UrlError ''invalid URI for request'')),
      URL_String = (\<lambda>u. u),
      URL_setRawQuery = (\<lambda>u q. takeWhile (\<lambda>ch. ch \<noteq> CHR ''?'') u @ ''?'' @ q),
      QueryEscape = (\<lambda>s. s),
      os_Open =
        (\<lambda>path. if path = ''docs/a.png'' then Inr (''a.png'', ''PNG'')
                else Inl (IOError ''no such file or directory'')),
      File_Stat = (\<lambda>fl. Inr (fst fl)),
      io_Copy = (\<lambda>fl. Inr (snd fl)),
      CreateFormFile_err = (\<lambda>fieldname filename. None),
      WriteField_err = (\<lambda>fieldname v. None),
      Close_err = (\<lambda>body. None),
      randomBoundary = (\<lambda>w. ''b0''),
      NewRequest_err = (\<lambda>method url. None),
      Unmarshal_Attachments =
        (\<lambda>res. if res = ''empty'' then Inr \<lparr>Results = [], Size = 0\<rparr>
              else if take 5 res = ''list:''
                then Inr \<lparr>Results = [sample_attachment (drop 5 res)], Size = 1\<rparr>
              else Inl (JsonError ''cannot unmarshal'')),
      Unmarshal_Attachment =
        (\<lambda>res. if take 4 res = ''obj:'' then Inr (sample_attachment (drop 4 res))
              else Inl (JsonError ''cannot unmarshal''))\<rparr>"

text \<open>
  A client whose transport answers a \<open>request\<close> call by \<open>get_answer\<close> of its URL and every
  \<open>sendRequest\<close> call by \<open>post_answer\<close>.
\<close>

definition sample_client :: "string \<Rightarrow> (string \<Rightarrow> error + bytes) \<Rightarrow> (error + bytes) \<Rightarrow> client" where
  "sample_client root get_answer post_answer =
     \<lparr>Endpoint = root,
      transport = (\<lambda>w cl. case cl of
                             Request method url body contentType \<Rightarrow> get_answer url
                           | SendRequest req \<Rightarrow> post_answer)\<rparr>"

definition wiki :: "(string \<Rightarrow> error + bytes) \<Rightarrow> (error + bytes) \<Rightarrow> client" where
  "wiki get_answer post_answer = sample_client ''http://wiki/rest/api'' get_answer post_answer"

section \<open>Lemmas about the operations\<close>

lemmas sample_defs = sample_platform_def sample_client_def wiki_def sample_attachment_def
  newAttachmentEndpoint_def attachmentEndpoint_def attachmentDataEndpoint_def
  request_def sendRequest_def FormDataContentType_def FormatBool_def path_Base_def
  slice_from_def

lemmas operation_defs = GetAttachment_def GetAttachmentByFilename_def DeleteAttachment_def
  AddAttachment_def UpdateAttachment_def AddUpdateAttachments_file_def
  AddUpdateAttachments_def Let_def

lemma first_or_empty:
  "(if xs = [] then (Inl EmptyList, w) else (Inr (xs ! 0), w)) =
   ((case xs of [] \<Rightarrow> Inl EmptyList | a # _ \<Rightarrow> Inr a), w)"
  by (cases xs) simp_all

lemma DeleteAttachment_unfold:
  "DeleteAttachment c p contentID attachmentID w =
     (case attachmentEndpoint c p contentID attachmentID of
        Inl err \<Rightarrow> (Some err, w)
      | Inr endpoint \<Rightarrow>
          ((case transport c w (Request ''DELETE'' (URL_String p endpoint) [] []) of
              Inl err \<Rightarrow> Some err
            | Inr res \<Rightarrow> None),
           w @ [Request ''DELETE'' (URL_String p endpoint) [] []]))"
  unfolding DeleteAttachment_def request_def
  by (auto split: sum.split)

lemma GetAttachment_unfold:
  "GetAttachment c p contentID attachmentID w =
     (case attachmentEndpoint c p contentID attachmentID of
        Inl err \<Rightarrow> (Inl err, w)
      | Inr endpoint \<Rightarrow>
          ((case transport c w (Request ''GET'' (URL_String p endpoint) [] []) of
              Inl err \<Rightarrow> Inl err
            | Inr res \<Rightarrow> decode_first p res),
           w @ [Request ''GET'' (URL_String p endpoint) [] []]))"
  unfolding GetAttachment_def request_def decode_first_def
  by (auto simp: first_or_empty split: sum.split)

lemma GetAttachmentByFilename_unfold:
  "GetAttachmentByFilename c p contentID filename w =
     (case newAttachmentEndpoint c p contentID of
        Inl err \<Rightarrow> (Inl err, w)
      | Inr endpoint \<Rightarrow>
          ((case transport c w (Request ''GET'' (filename_url p endpoint filename) [] []) of
              Inl err \<Rightarrow> Inl err
            | Inr res \<Rightarrow> decode_first p res),
           w @ [Request ''GET'' (filename_url p endpoint filename) [] []]))"
  unfolding GetAttachmentByFilename_def request_def decode_first_def filename_url_def Let_def
  by (auto simp: first_or_empty split: sum.split)

lemma AddAttachment_unfold:
  "AddAttachment c p contentID path w =
     (case upload_body p path None of
        Inl err \<Rightarrow> (Inl err, w)
      | Inr body \<Rightarrow>
     (case newAttachmentEndpoint c p contentID of
        Inl err \<Rightarrow> (Inl err, w)
      | Inr endpoint \<Rightarrow>
     (case NewRequest_err p ''POST'' (URL_String p endpoint) of
        Some err \<Rightarrow> (Inl err, w)
      | None \<Rightarrow>
          ((case transport c w (SendRequest (post_request c p endpoint body w)) of
              Inl err \<Rightarrow> Inl err
            | Inr res \<Rightarrow> decode_first p res),
           w @ [SendRequest (post_request c p endpoint body w)]))))"
  unfolding AddAttachment_def upload_body_def post_request_def sendRequest_def decode_first_def Let_def
  by (auto simp: first_or_empty split: sum.split option.split)

lemma UpdateAttachment_unfold:
  "UpdateAttachment c p contentID attachmentID path minorEdit w =
     (case upload_body p path (Some minorEdit) of
        Inl err \<Rightarrow> (Inl err, w)
      | Inr body \<Rightarrow>
     (case attachmentDataEndpoint c p contentID attachmentID of
        Inl err \<Rightarrow> (Inl err, w)
      | Inr endpoint \<Rightarrow>
     (case NewRequest_err p ''POST'' (URL_String p endpoint) of
        Some err \<Rightarrow> (Inl err, w)
      | None \<Rightarrow>
          ((case transport c w (SendRequest (post_request c p endpoint body w)) of
              Inl err \<Rightarrow> Inl err
            | Inr res \<Rightarrow> Unmarshal_Attachment p res),
           w @ [SendRequest (post_request c p endpoint body w)]))))"
  unfolding UpdateAttachment_def upload_body_def post_request_def sendRequest_def Let_def
  by (auto split: sum.split option.split)

lemma upload_fails_unsent:
  "(snd (AddAttachment c p contentID path w) = w \<longrightarrow>
      isl (fst (AddAttachment c p contentID path w))) \<and>
   (snd (UpdateAttachment c p contentID attachmentID path minorEdit w) = w \<longrightarrow>
      isl (fst (UpdateAttachment c p contentID attachmentID path minorEdit w)))"
  unfolding AddAttachment_unfold UpdateAttachment_unfold
  by (auto split: sum.split option.split)

lemma upload_body_Inl:
  assumes "os_Open p path = Inl err \<or>
     (\<exists>fl. os_Open p path = Inr fl \<and> File_Stat p fl = Inl err) \<or>
     (\<exists>fl fi_Name. os_Open p path = Inr fl \<and> File_Stat p fl = Inr fi_Name \<and>
        CreateFormFile_err p ''file'' fi_Name = None \<and> io_Copy p fl = Inl err)"
  shows "upload_body p path minorEdit = Inl err"
  using assms unfolding upload_body_def by auto

subsection \<open>Endpoints\<close>

lemma attachmentEndpoint_Inl:
  "newAttachmentEndpoint c p contentID = Inl err \<Longrightarrow>
   attachmentEndpoint c p contentID attachmentID = Inl err"
  by (simp add: attachmentEndpoint_def)

lemma attachmentDataEndpoint_Inl:
  "newAttachmentEndpoint c p contentID = Inl err \<Longrightarrow>
   attachmentDataEndpoint c p contentID attachmentID = Inl err"
  by (simp add: attachmentDataEndpoint_def attachmentEndpoint_Inl)

lemma prints_back_newAttachmentEndpoint:
  assumes "prints_back p (collection_url c contentID)"
  shows "\<exists>u. newAttachmentEndpoint c p contentID = Inr u \<and>
             URL_String p u = collection_url c contentID"
  using assms
  by (auto simp: prints_back_def newAttachmentEndpoint_def collection_url_def split: sum.splits)

lemma prints_back_attachmentEndpoint:
  assumes "prints_back p (collection_url c contentID)"
    and "prints_back p (attachment_url c contentID attachmentID)"
  shows "\<exists>u. attachmentEndpoint c p contentID attachmentID = Inr u \<and>
             URL_String p u = attachment_url c contentID attachmentID"
proof -
  from prints_back_newAttachmentEndpoint [OF assms(1)] obtain endpoint
    where "newAttachmentEndpoint c p contentID = Inr endpoint"
      and "URL_String p endpoint = collection_url c contentID" by blast
  then have "attachmentEndpoint c p contentID attachmentID =
      ParseRequestURI p (attachment_url c contentID attachmentID)"
    by (simp add: attachmentEndpoint_def attachment_url_def)
  with assms(2) show ?thesis
    by (auto simp: prints_back_def split: sum.splits)
qed

lemma prints_back_attachmentDataEndpoint:
  assumes "prints_back p (collection_url c contentID)"
    and "prints_back p (attachment_url c contentID attachmentID)"
    and "prints_back p (data_url c contentID attachmentID)"
  shows "\<exists>u. attachmentDataEndpoint c p contentID attachmentID = Inr u \<and>
             URL_String p u = data_url c contentID attachmentID"
proof -
  from prints_back_attachmentEndpoint [OF assms(1,2)] obtain endpoint
    where "attachmentEndpoint c p contentID attachmentID = Inr endpoint"
      and "URL_String p endpoint = attachment_url c contentID attachmentID" by blast
  then have "attachmentDataEndpoint c p contentID attachmentID =
      ParseRequestURI p (data_url c contentID attachmentID)"
    by (simp add: attachmentDataEndpoint_def data_url_def)
  with assms(3) show ?thesis
    by (auto simp: prints_back_def split: sum.splits)
qed

lemma segment_unique:
  assumes "CHR ''/'' \<notin> set a" and "CHR ''/'' \<notin> set b"
    and "a @ CHR ''/'' # x = b @ CHR ''/'' # y"
  shows "a = b \<and> x = y"
proof -
  have "takeWhile (\<lambda>ch. ch \<noteq> CHR ''/'') (a @ CHR ''/'' # x) = a"
    using assms(1) by (auto simp: takeWhile_tail)
  moreover have "takeWhile (\<lambda>ch. ch \<noteq> CHR ''/'') (b @ CHR ''/'' # y) = b"
    using assms(2) by (auto simp: takeWhile_tail)
  ultimately have "a = b" using assms(3) by simp
  with assms(3) show ?thesis by simp
qed

subsection \<open>The size field\<close>

lemma override_size_fields:
  "ParseRequestURI (override_size g p) = ParseRequestURI p"
  "URL_String (override_size g p) = URL_String p"
  "URL_setRawQuery (override_size g p) = URL_setRawQuery p"
  "QueryEscape (override_size g p) = QueryEscape p"
  "os_Open (override_size g p) = os_Open p"
  "File_Stat (override_size g p) = File_Stat p"
  "io_Copy (override_size g p) = io_Copy p"
  "CreateFormFile_err (override_size g p) = CreateFormFile_err p"
  "WriteField_err (override_size g p) = WriteField_err p"
  "Close_err (override_size g p) = Close_err p"
  "randomBoundary (override_size g p) = randomBoundary p"
  "NewRequest_err (override_size g p) = NewRequest_err p"
  by (simp_all add: override_size_def)

lemma decode_first_override_size: "decode_first (override_size g p) res = decode_first p res"
  by (simp add: decode_first_def override_size_def split: sum.split)

lemma endpoints_override_size:
  "newAttachmentEndpoint c (override_size g p) contentID = newAttachmentEndpoint c p contentID"
  "attachmentEndpoint c (override_size g p) contentID attachmentID =
     attachmentEndpoint c p contentID attachmentID"
  by (simp_all add: newAttachmentEndpoint_def attachmentEndpoint_def override_size_fields
      cong: sum.case_cong)

lemma others_override_size:
  "upload_body (override_size g p) path m = upload_body p path m"
  "post_request c (override_size g p) endpoint body w = post_request c p endpoint body w"
  "filename_url (override_size g p) endpoint filename = filename_url p endpoint filename"
  by (simp_all add: upload_body_def post_request_def filename_url_def override_size_fields
      FormDataContentType_def cong: sum.case_cong option.case_cong)

subsection \<open>The reconciler\<close>

lemma AddUpdateAttachments_file_not_found:
  assumes "GetAttachmentByFilename c p contentID (path_Base f) w = (Inl err, w1)"
  shows "AddUpdateAttachments_file c p contentID f w =
           (case AddAttachment c p contentID f w1 of (r, w2) \<Rightarrow> (Inr r, w2))"
  using assms by (simp add: AddUpdateAttachments_file_def)

lemma AddUpdateAttachments_file_found:
  assumes "GetAttachmentByFilename c p contentID (path_Base f) w = (Inr a, w1)"
  shows "AddUpdateAttachments_file c p contentID f w =
           (if length (Id' a) < 3 then (Inl (SliceBoundsOutOfRange 3 (length (Id' a))), w1)
            else case UpdateAttachment c p contentID (drop 3 (Id' a)) f True w1 of
                   (r, w2) \<Rightarrow> (Inr r, w2))"
  using assms by (simp add: AddUpdateAttachments_file_def slice_from_def)

lemma AddUpdateAttachments_loop_append:
  "AddUpdateAttachments_loop c p contentID (xs @ ys) results errors w =
     (case AddUpdateAttachments_loop c p contentID xs results errors w of
        (Inl pn, w') \<Rightarrow> (Inl pn, w')
      | (Inr (results', errors'), w') \<Rightarrow>
          AddUpdateAttachments_loop c p contentID ys results' errors' w')"
proof (induction xs arbitrary: results errors w)
  case Nil
  show ?case by simp
next
  case (Cons x xs)
  show ?case
    by (simp add: Cons.IH split: prod.split sum.split)
qed

lemma decode_first_prefixed:
  "ids_prefixed p \<Longrightarrow> decode_first p res = Inr a \<Longrightarrow> 3 \<le> length (Id' a)"
  unfolding ids_prefixed_def decode_first_def
  by (auto split: sum.splits list.splits)

lemma lookup_prefixed:
  assumes "ids_prefixed p"
    and "GetAttachmentByFilename c p contentID filename w = (Inr a, w1)"
  shows "3 \<le> length (Id' a)"
proof -
  from assms(2) obtain res where "decode_first p res = Inr a"
    unfolding GetAttachmentByFilename_unfold by (auto split: sum.splits)
  with assms(1) show ?thesis by (rule decode_first_prefixed)
qed

lemma AddUpdateAttachments_file_prefixed:
  assumes "ids_prefixed p"
  shows "\<exists>r w2. AddUpdateAttachments_file c p contentID f w = (Inr r, w2)"
proof (cases "GetAttachmentByFilename c p contentID (path_Base f) w")
  case (Pair r w1)
  show ?thesis
  proof (cases r)
    case (Inl err)
    with Pair show ?thesis
      by (simp add: AddUpdateAttachments_file_not_found split: prod.split)
  next
    case (Inr a)
    with Pair assms have "3 \<le> length (Id' a)" by (simp add: lookup_prefixed)
    with Pair Inr show ?thesis
      by (simp add: AddUpdateAttachments_file_found split: prod.split)
  qed
qed

lemma AddUpdateAttachments_loop_prefixed:
  assumes "ids_prefixed p"
  shows "\<exists>results' errors' w'.
           AddUpdateAttachments_loop c p contentID files results errors w =
             (Inr (results', errors'), w') \<and>
           length results' + length errors' = length results + length errors + length files"
proof (induction files arbitrary: results errors w)
  case Nil
  show ?case by simp
next
  case (Cons f files)
  from AddUpdateAttachments_file_prefixed [OF assms] obtain r w2
    where step: "AddUpdateAttachments_file c p contentID f w = (Inr r, w2)" by blast
  show ?case
  proof (cases r)
    case (Inl err)
    with step Cons.IH [of results "errors @ [err]" w2] show ?thesis by auto
  next
    case (Inr attachment)
    with step Cons.IH [of "results @ [attachment]" errors w2] show ?thesis by auto
  qed
qed

text \<open>
  When every attachment a lookup can return has an identifier of at least three
  characters, the batch returns, with one outcome per input file.
\<close>

lemma AddUpdateAttachments_prefixed:
  assumes "ids_prefixed p"
  shows "\<exists>results errors w'.
           AddUpdateAttachments c p contentID files w = (Inr (results, errors), w') \<and>
           length results + length errors = length files"
  using AddUpdateAttachments_loop_prefixed [OF assms, of c contentID files "[]" "[]" w]
  by (simp add: AddUpdateAttachments_def)

section \<open>The claims\<close>

text \<open>
  Claim C1: for every content identifier and every list of N file paths,
  \<open>AddUpdateAttachments\<close> returns, and the results and the errors together count N.
  This holds when every identifier a lookup returns has three characters or more
  (lemma \<open>AddUpdateAttachments_prefixed\<close>). It fails on the run below: the service answers
  the lookup of \<open>a.png\<close> with an attachment whose identifier is \<open>42\<close>, the slice
  \<open>attachment.Id[3:]\<close> panics, and the call does not return any outcome for the file.
\<close>

theorem batch_panics_on_two_character_id:
  "AddUpdateAttachments (wiki (\<lambda>url. Inr ''list:42'') (Inr ''obj:42'')) sample_platform
     ''123'' [''docs/a.png''] [] =
   (Inl (SliceBoundsOutOfRange 3 2),
    [Request ''GET'' ''http://wiki/rest/api/content/123/child/attachment?filename=a.png''
       [] []])"
  by (simp add: operation_defs sample_defs)

text \<open>
  Claim C2, as amended: whatever error the per-file lookup fails with (an empty list, a
  transport error, a decoding error, a malformed endpoint), the file is handed to
  \<open>AddAttachment\<close>; the lookup's error is dropped, and the file's outcome is the outcome of
  \<open>AddAttachment\<close>.
\<close>

theorem any_lookup_error_routes_to_Create:
  assumes "GetAttachmentByFilename c p contentID (path_Base f) w = (Inl err, w1)"
  shows "AddUpdateAttachments_loop c p contentID (f # files) results errors w =
           (case AddAttachment c p contentID f w1 of
              (Inr attachment, w2) \<Rightarrow>
                AddUpdateAttachments_loop c p contentID files (results @ [attachment]) errors w2
            | (Inl err', w2) \<Rightarrow>
                AddUpdateAttachments_loop c p contentID files results (errors @ [err']) w2)"
  by (simp add: AddUpdateAttachments_file_not_found [OF assms] split: prod.split sum.split)

theorem any_lookup_error_routes_to_Create_witness:
  "GetAttachmentByFilename (wiki (\<lambda>url. Inr ''<html>'') (Inr ''list:att777'')) sample_platform
     ''123'' (path_Base ''docs/a.png'') [] =
     (Inl (JsonError ''cannot unmarshal''),
      [Request ''GET'' ''http://wiki/rest/api/content/123/child/attachment?filename=a.png''
         [] []]) \<and>
   AddUpdateAttachments_loop (wiki (\<lambda>url. Inr ''<html>'') (Inr ''list:att777''))
     sample_platform ''123'' [''docs/a.png''] [] [] [] =
     (Inr ([sample_attachment ''att777''], []),
      [Request ''GET'' ''http://wiki/rest/api/content/123/child/attachment?filename=a.png''
         [] [],
       SendRequest \<lparr>Method = ''POST'',
         URL = ''http://wiki/rest/api/content/123/child/attachment'',
         ContentType = ''multipart/form-data; boundary=b0'',
         Body = [FormFile ''file'' ''a.png'' ''PNG'']\<rparr>])"
proof -
  let ?c = "wiki (\<lambda>url. Inr ''<html>'') (Inr ''list:att777'')"
  have lookup: "GetAttachmentByFilename ?c sample_platform ''123'' (path_Base ''docs/a.png'') [] =
     (Inl (JsonError ''cannot unmarshal''),
      [Request ''GET'' ''http://wiki/rest/api/content/123/child/attachment?filename=a.png''
         [] []])"
    by (simp add: operation_defs sample_defs)
  from any_lookup_error_routes_to_Create
    [OF lookup, where files = "[]" and results = "[]" and errors = "[]"] lookup
  show ?thesis by (simp add: operation_defs sample_defs)
qed

text \<open>
  The claim as it was stated fails: here the lookup fails with a transport error, and the
  file is created all the same; the transport error appears nowhere in the batch's errors.
\<close>

theorem lookup_transport_error_is_recovered:
  "AddUpdateAttachments (wiki (\<lambda>url. Inl (TransportError ''503'')) (Inr ''list:att777''))
     sample_platform ''123'' [''docs/a.png''] [] =
   (Inr ([sample_attachment ''att777''], []),
    [Request ''GET'' ''http://wiki/rest/api/content/123/child/attachment?filename=a.png''
       [] [],
     SendRequest \<lparr>Method = ''POST'',
       URL = ''http://wiki/rest/api/content/123/child/attachment'',
       ContentType = ''multipart/form-data; boundary=b0'',
       Body = [FormFile ''file'' ''a.png'' ''PNG'']\<rparr>])"
  by (simp add: operation_defs sample_defs)

text \<open>
  When the lookup of a file succeeds with an attachment whose identifier has three
  characters or more, the file's outcome is that of \<open>UpdateAttachment\<close> called with the
  identifier less its first three characters and with \<open>minorEdit = true\<close>.
\<close>

lemma found_long_id_is_updated_without_prefix:
  assumes "GetAttachmentByFilename c p contentID (path_Base f) w = (Inr a, w1)"
    and "3 \<le> length (Id' a)"
  shows "AddUpdateAttachments_file c p contentID f w =
           (case UpdateAttachment c p contentID (drop 3 (Id' a)) f True w1 of
              (r, w2) \<Rightarrow> (Inr r, w2))"
  using assms(2) by (simp add: AddUpdateAttachments_file_found [OF assms(1)])

text \<open>
  The scenario of the specification: content \<open>123\<close>, file \<open>a.png\<close>, found with identifier
  \<open>att123456\<close>. The update is posted to \<open>.../123/child/attachment/123456/data\<close> with
  \<open>minorEdit=true\<close>.
\<close>

lemma found_long_id_is_updated_without_prefix_example:
  "AddUpdateAttachments_file (wiki (\<lambda>url. Inr ''list:att123456'') (Inr ''obj:att123456''))
     sample_platform ''123'' ''docs/a.png'' [] =
   (Inr (Inr (sample_attachment ''att123456'')),
    [Request ''GET'' ''http://wiki/rest/api/content/123/child/attachment?filename=a.png''
       [] [],
     SendRequest \<lparr>Method = ''POST'',
       URL = ''http://wiki/rest/api/content/123/child/attachment/123456/data'',
       ContentType = ''multipart/form-data; boundary=b0'',
       Body = [FormFile ''file'' ''a.png'' ''PNG'', FormField ''minorEdit'' ''true'']\<rparr>])"
proof -
  let ?c = "wiki (\<lambda>url. Inr ''list:att123456'') (Inr ''obj:att123456'')"
  have lookup: "GetAttachmentByFilename ?c sample_platform ''123'' (path_Base ''docs/a.png'') [] =
     (Inr (sample_attachment ''att123456''),
      [Request ''GET'' ''http://wiki/rest/api/content/123/child/attachment?filename=a.png''
         [] []])"
    by (simp add: operation_defs sample_defs)
  have prefixed: "3 \<le> length (Id' (sample_attachment ''att123456''))"
    by (simp add: sample_attachment_def)
  from found_long_id_is_updated_without_prefix [OF lookup prefixed]
  show ?thesis by (simp add: operation_defs sample_defs)
qed

text \<open>
  Claim C3: for every file whose lookup succeeds with identifier I, \<open>UpdateAttachment\<close> is
  called with \<open>minorEdit = true\<close> and with I less its first three characters. The code
  does so when I has three characters or more (the two lemmas above). It does not on the
  run below: the service answers the lookup of \<open>a.png\<close> with an attachment whose
  identifier is empty, the slice \<open>attachment.Id[3:]\<close> panics, and \<open>UpdateAttachment\<close> is
  never called: the lookup is the only call on the wire.
\<close>

theorem found_empty_id_is_never_updated:
  "AddUpdateAttachments_file (wiki (\<lambda>url. Inr ''list:'') (Inr ''obj:'')) sample_platform
     ''123'' ''docs/a.png'' [] =
   (Inl (SliceBoundsOutOfRange 3 0),
    [Request ''GET'' ''http://wiki/rest/api/content/123/child/attachment?filename=a.png''
       [] []])"
  by (simp add: operation_defs sample_defs)

text \<open>
  Claim C4: when the endpoint of \<open>GetAttachment\<close> (of \<open>GetAttachmentByFilename\<close>) is built,
  the transport answers the GET with a body, and the body decodes to an envelope, the
  operation makes that one call and returns the first element of the envelope's results
  as it was decoded, or fails with the \<open>empty list\<close> error when the results are empty.
\<close>

theorem lookup_first_or_EmptyList:
  "(attachmentEndpoint c p contentID attachmentID = Inr endpoint \<and>
    transport c w (Request ''GET'' (URL_String p endpoint) [] []) = Inr res \<and>
    Unmarshal_Attachments p res = Inr attachments \<longrightarrow>
      GetAttachment c p contentID attachmentID w =
        ((case Results attachments of [] \<Rightarrow> Inl EmptyList | a # _ \<Rightarrow> Inr a),
         w @ [Request ''GET'' (URL_String p endpoint) [] []])) \<and>
   (newAttachmentEndpoint c p contentID = Inr endpoint' \<and>
    transport c w
      (Request ''GET''
         (URL_String p (URL_setRawQuery p endpoint' (''filename='' @ QueryEscape p filename)))
         [] []) = Inr res' \<and>
    Unmarshal_Attachments p res' = Inr attachments' \<longrightarrow>
      GetAttachmentByFilename c p contentID filename w =
        ((case Results attachments' of [] \<Rightarrow> Inl EmptyList | a # _ \<Rightarrow> Inr a),
         w @ [Request ''GET''
                (URL_String p
                   (URL_setRawQuery p endpoint' (''filename='' @ QueryEscape p filename)))
                [] []]))"
  by (simp add: GetAttachment_unfold GetAttachmentByFilename_unfold filename_url_def
      decode_first_def)

theorem lookup_first_or_EmptyList_witness:
  "GetAttachment (wiki (\<lambda>url. Inr ''list:att42'') (Inr [])) sample_platform
     ''123'' ''att42'' [] =
     (Inr (sample_attachment ''att42''),
      [Request ''GET'' ''http://wiki/rest/api/content/123/child/attachment/att42'' [] []]) \<and>
   GetAttachment (wiki (\<lambda>url. Inr ''empty'') (Inr [])) sample_platform
     ''123'' ''att42'' [] =
     (Inl EmptyList,
      [Request ''GET'' ''http://wiki/rest/api/content/123/child/attachment/att42'' [] []]) \<and>
   GetAttachmentByFilename (wiki (\<lambda>url. Inr ''list:att42'') (Inr [])) sample_platform
     ''123'' ''a.png'' [] =
     (Inr (sample_attachment ''att42''),
      [Request ''GET'' ''http://wiki/rest/api/content/123/child/attachment?filename=a.png''
         [] []]) \<and>
   GetAttachmentByFilename (wiki (\<lambda>url. Inr ''empty'') (Inr [])) sample_platform
     ''123'' ''a.png'' [] =
     (Inl EmptyList,
      [Request ''GET'' ''http://wiki/rest/api/content/123/child/attachment?filename=a.png''
         [] []])"
proof -
  let ?c = "wiki (\<lambda>url. Inr ''list:att42'') (Inr [])"
  let ?d = "wiki (\<lambda>url. Inr ''empty'') (Inr [])"
  let ?one = "\<lparr>Results = [sample_attachment ''att42''], Size = 1\<rparr>"
  let ?none = "\<lparr>Results = [], Size = 0\<rparr>"
  let ?coll = "''http://wiki/rest/api/content/123/child/attachment''"
  let ?att = "''http://wiki/rest/api/content/123/child/attachment/att42''"
  let ?find = "Request ''GET''
      (URL_String sample_platform
         (URL_setRawQuery sample_platform ?coll (''filename='' @ QueryEscape sample_platform ''a.png'')))
      [] []"
  have get_one:
    "attachmentEndpoint ?c sample_platform ''123'' ''att42'' = Inr ?att \<and>
     transport ?c [] (Request ''GET'' (URL_String sample_platform ?att) [] []) = Inr ''list:att42'' \<and>
     Unmarshal_Attachments sample_platform ''list:att42'' = Inr ?one"
    by (simp add: sample_defs)
  have get_none:
    "attachmentEndpoint ?d sample_platform ''123'' ''att42'' = Inr ?att \<and>
     transport ?d [] (Request ''GET'' (URL_String sample_platform ?att) [] []) = Inr ''empty'' \<and>
     Unmarshal_Attachments sample_platform ''empty'' = Inr ?none"
    by (simp add: sample_defs)
  have find_one:
    "newAttachmentEndpoint ?c sample_platform ''123'' = Inr ?coll \<and>
     transport ?c [] ?find = Inr ''list:att42'' \<and>
     Unmarshal_Attachments sample_platform ''list:att42'' = Inr ?one"
    by (simp add: sample_defs)
  have find_none:
    "newAttachmentEndpoint ?d sample_platform ''123'' = Inr ?coll \<and>
     transport ?d [] ?find = Inr ''empty'' \<and>
     Unmarshal_Attachments sample_platform ''empty'' = Inr ?none"
    by (simp add: sample_defs)
  from lookup_first_or_EmptyList [THEN conjunct1, THEN mp, OF get_one]
    lookup_first_or_EmptyList [THEN conjunct1, THEN mp, OF get_none]
    lookup_first_or_EmptyList [THEN conjunct2, THEN mp, OF find_one]
    lookup_first_or_EmptyList [THEN conjunct2, THEN mp, OF find_none]
  show ?thesis by (simp add: sample_platform_def)
qed

text \<open>
  Claim C5, as amended: for every operation, when the collection endpoint
  \<open>{base}/content/{C}/child/attachment\<close> fails to parse, the operation returns an error and
  makes no call to the transport. The content identifier is not checked for emptiness:
  \<open>GetAttachmentByFilename\<close> sends its request whenever the collection endpoint parses, and
  \<open>GetAttachment\<close> and \<open>DeleteAttachment\<close> send theirs whenever the attachment endpoint
  parses, also when C is empty.
\<close>

theorem endpoint_failure_sends_nothing:
  "(newAttachmentEndpoint c p contentID = Inl err \<longrightarrow>
      GetAttachment c p contentID attachmentID w = (Inl err, w) \<and>
      GetAttachmentByFilename c p contentID filename w = (Inl err, w) \<and>
      DeleteAttachment c p contentID attachmentID w = (Some err, w) \<and>
      snd (AddAttachment c p contentID path w) = w \<and>
      isl (fst (AddAttachment c p contentID path w)) \<and>
      snd (UpdateAttachment c p contentID attachmentID path minorEdit w) = w \<and>
      isl (fst (UpdateAttachment c p contentID attachmentID path minorEdit w))) \<and>
   (newAttachmentEndpoint c p contentID = Inr endpoint \<longrightarrow>
      snd (GetAttachmentByFilename c p contentID filename w) =
        w @ [Request ''GET''
               (URL_String p
                  (URL_setRawQuery p endpoint (''filename='' @ QueryEscape p filename)))
               [] []]) \<and>
   (attachmentEndpoint c p contentID attachmentID = Inr endpoint' \<longrightarrow>
      snd (GetAttachment c p contentID attachmentID w) =
        w @ [Request ''GET'' (URL_String p endpoint') [] []] \<and>
      snd (DeleteAttachment c p contentID attachmentID w) =
        w @ [Request ''DELETE'' (URL_String p endpoint') [] []])"
proof (intro conjI)
  show "newAttachmentEndpoint c p contentID = Inl err \<longrightarrow>
      GetAttachment c p contentID attachmentID w = (Inl err, w) \<and>
      GetAttachmentByFilename c p contentID filename w = (Inl err, w) \<and>
      DeleteAttachment c p contentID attachmentID w = (Some err, w) \<and>
      snd (AddAttachment c p contentID path w) = w \<and>
      isl (fst (AddAttachment c p contentID path w)) \<and>
      snd (UpdateAttachment c p contentID attachmentID path minorEdit w) = w \<and>
      isl (fst (UpdateAttachment c p contentID attachmentID path minorEdit w))"
  proof (rule impI)
    assume malformed: "newAttachmentEndpoint c p contentID = Inl err"
    have add: "snd (AddAttachment c p contentID path w) = w"
      using malformed unfolding AddAttachment_unfold by (simp split: sum.split)
    have upd: "snd (UpdateAttachment c p contentID attachmentID path minorEdit w) = w"
      using attachmentDataEndpoint_Inl [OF malformed] unfolding UpdateAttachment_unfold
      by (simp split: sum.split)
    from add upd upload_fails_unsent [of c p contentID path w attachmentID minorEdit]
    show "GetAttachment c p contentID attachmentID w = (Inl err, w) \<and>
        GetAttachmentByFilename c p contentID filename w = (Inl err, w) \<and>
        DeleteAttachment c p contentID attachmentID w = (Some err, w) \<and>
        snd (AddAttachment c p contentID path w) = w \<and>
        isl (fst (AddAttachment c p contentID path w)) \<and>
        snd (UpdateAttachment c p contentID attachmentID path minorEdit w) = w \<and>
        isl (fst (UpdateAttachment c p contentID attachmentID path minorEdit w))"
      using malformed attachmentEndpoint_Inl [OF malformed]
      by (simp add: GetAttachment_unfold GetAttachmentByFilename_unfold DeleteAttachment_unfold)
  qed
next
  show "newAttachmentEndpoint c p contentID = Inr endpoint \<longrightarrow>
    snd (GetAttachmentByFilename c p contentID filename w) =
        w @ [Request ''GET''
               (URL_String p
                  (URL_setRawQuery p endpoint (''filename='' @ QueryEscape p filename)))
               [] []]"
    by (simp add: GetAttachmentByFilename_unfold filename_url_def)
next
  show "attachmentEndpoint c p contentID attachmentID = Inr endpoint' \<longrightarrow>
    snd (GetAttachment c p contentID attachmentID w) =
        w @ [Request ''GET'' (URL_String p endpoint') [] []] \<and>
      snd (DeleteAttachment c p contentID attachmentID w) =
        w @ [Request ''DELETE'' (URL_String p endpoint') [] []]"
    by (simp add: GetAttachment_unfold DeleteAttachment_unfold)
qed

theorem endpoint_failure_sends_nothing_witness:
  "(GetAttachment (sample_client ''wiki/rest/api'' (\<lambda>url. Inr ''empty'') (Inr ''empty''))
     sample_platform ''123'' ''att42'' [] = (Inl (UrlError ''invalid URI for request''), []) \<and>
   GetAttachmentByFilename (sample_client ''wiki/rest/api'' (\<lambda>url. Inr ''empty'') (Inr ''empty''))
     sample_platform ''123'' ''a.png'' [] = (Inl (UrlError ''invalid URI for request''), []) \<and>
   DeleteAttachment (sample_client ''wiki/rest/api'' (\<lambda>url. Inr ''empty'') (Inr ''empty''))
     sample_platform ''123'' ''att42'' [] = (Some (UrlError ''invalid URI for request''), []) \<and>
   snd (AddAttachment (sample_client ''wiki/rest/api'' (\<lambda>url. Inr ''empty'') (Inr ''empty''))
     sample_platform ''123'' ''docs/a.png'' []) = [] \<and>
   isl (fst (AddAttachment (sample_client ''wiki/rest/api'' (\<lambda>url. Inr ''empty'') (Inr ''empty''))
     sample_platform ''123'' ''docs/a.png'' [])) \<and>
   snd (UpdateAttachment (sample_client ''wiki/rest/api'' (\<lambda>url. Inr ''empty'') (Inr ''empty''))
     sample_platform ''123'' ''att42'' ''docs/a.png'' True []) = [] \<and>
   isl (fst (UpdateAttachment (sample_client ''wiki/rest/api'' (\<lambda>url. Inr ''empty'') (Inr ''empty''))
     sample_platform ''123'' ''att42'' ''docs/a.png'' True []))) \<and>
   snd (GetAttachmentByFilename (wiki (\<lambda>url. Inr ''empty'') (Inr ''empty'')) sample_platform
     [] ''a.png'' []) =
     [Request ''GET'' ''http://wiki/rest/api/content//child/attachment?filename=a.png'' [] []] \<and>
   snd (GetAttachment (wiki (\<lambda>url. Inr ''empty'') (Inr ''empty'')) sample_platform
     [] ''att42'' []) =
     [Request ''GET'' ''http://wiki/rest/api/content//child/attachment/att42'' [] []] \<and>
   snd (DeleteAttachment (wiki (\<lambda>url. Inr ''empty'') (Inr ''empty'')) sample_platform
     [] ''att42'' []) =
     [Request ''DELETE'' ''http://wiki/rest/api/content//child/attachment/att42'' [] []]"
proof -
  let ?c = "sample_client ''wiki/rest/api'' (\<lambda>url. Inr ''empty'') (Inr ''empty'')"
  let ?d = "wiki (\<lambda>url. Inr ''empty'') (Inr ''empty'')"
  have malformed: "newAttachmentEndpoint ?c sample_platform ''123'' =
      Inl (UrlError ''invalid URI for request'')"
    by (simp add: sample_defs)
  have coll: "newAttachmentEndpoint ?d sample_platform [] =
      Inr ''http://wiki/rest/api/content//child/attachment''"
    by (simp add: sample_defs)
  have att: "attachmentEndpoint ?d sample_platform [] ''att42'' =
      Inr ''http://wiki/rest/api/content//child/attachment/att42''"
    by (simp add: sample_defs)
  have refused:
    "GetAttachment ?c sample_platform ''123'' ''att42'' [] =
       (Inl (UrlError ''invalid URI for request''), []) \<and>
     GetAttachmentByFilename ?c sample_platform ''123'' ''a.png'' [] =
       (Inl (UrlError ''invalid URI for request''), []) \<and>
     DeleteAttachment ?c sample_platform ''123'' ''att42'' [] =
       (Some (UrlError ''invalid URI for request''), []) \<and>
     snd (AddAttachment ?c sample_platform ''123'' ''docs/a.png'' []) = [] \<and>
     isl (fst (AddAttachment ?c sample_platform ''123'' ''docs/a.png'' [])) \<and>
     snd (UpdateAttachment ?c sample_platform ''123'' ''att42'' ''docs/a.png'' True []) = [] \<and>
     isl (fst (UpdateAttachment ?c sample_platform ''123'' ''att42'' ''docs/a.png'' True []))"
    by (rule endpoint_failure_sends_nothing [THEN conjunct1, THEN mp, OF malformed])
  from endpoint_failure_sends_nothing
      [where filename = "''a.png''" and w = "[]", THEN conjunct2, THEN conjunct1, THEN mp, OF coll]
    endpoint_failure_sends_nothing
      [where w = "[]", THEN conjunct2, THEN conjunct2, THEN mp, OF att]
  have sent:
    "snd (GetAttachmentByFilename ?d sample_platform [] ''a.png'' []) =
       [Request ''GET'' ''http://wiki/rest/api/content//child/attachment?filename=a.png'' [] []] \<and>
     snd (GetAttachment ?d sample_platform [] ''att42'' []) =
       [Request ''GET'' ''http://wiki/rest/api/content//child/attachment/att42'' [] []] \<and>
     snd (DeleteAttachment ?d sample_platform [] ''att42'' []) =
       [Request ''DELETE'' ''http://wiki/rest/api/content//child/attachment/att42'' [] []]"
    by (simp add: sample_platform_def)
  from refused sent show ?thesis by (intro conjI) simp_all
qed

text \<open>
  The claim as it was stated fails: with the empty content identifier, \<open>GetAttachment\<close>,
  \<open>DeleteAttachment\<close> and \<open>AddAttachment\<close> each build a URL with an empty path segment and
  send the request.
\<close>

theorem empty_contentID_reaches_the_wire:
  "GetAttachment (wiki (\<lambda>url. Inr ''list:att42'') (Inr ''list:att42'')) sample_platform
     [] ''att42'' [] =
     (Inr (sample_attachment ''att42''),
      [Request ''GET'' ''http://wiki/rest/api/content//child/attachment/att42'' [] []]) \<and>
   DeleteAttachment (wiki (\<lambda>url. Inr ''list:att42'') (Inr ''list:att42'')) sample_platform
     [] ''att42'' [] =
     (None, [Request ''DELETE'' ''http://wiki/rest/api/content//child/attachment/att42'' [] []]) \<and>
   AddAttachment (wiki (\<lambda>url. Inr ''list:att42'') (Inr ''list:att42'')) sample_platform
     [] ''docs/a.png'' [] =
     (Inr (sample_attachment ''att42''),
      [SendRequest \<lparr>Method = ''POST'',
         URL = ''http://wiki/rest/api/content//child/attachment'',
         ContentType = ''multipart/form-data; boundary=b0'',
         Body = [FormFile ''file'' ''a.png'' ''PNG'']\<rparr>])"
  by (simp add: operation_defs sample_defs)

text \<open>
  Claim C6: with the local file read and the request built, when the transport answers
  the POST of \<open>UpdateAttachment\<close> with a body, the operation returns what the body decodes
  to as a single attachment object. When it answers the POST of \<open>AddAttachment\<close> with a
  body, the body is decoded as an envelope; the operation fails with the \<open>empty list\<close>
  error when the envelope has no results and returns the first result otherwise.
\<close>

theorem Update_decodes_object_Add_decodes_list:
  assumes "os_Open p path = Inr fl" and "File_Stat p fl = Inr fi_Name"
    and "CreateFormFile_err p ''file'' fi_Name = None" and "io_Copy p fl = Inr content"
  shows
  "(WriteField_err p ''minorEdit'' (FormatBool minorEdit) = None \<and>
    Close_err p [FormFile ''file'' fi_Name content,
                 FormField ''minorEdit'' (FormatBool minorEdit)] = None \<and>
    attachmentDataEndpoint c p contentID attachmentID = Inr endpoint \<and>
    NewRequest_err p ''POST'' (URL_String p endpoint) = None \<and>
    transport c w
      (SendRequest \<lparr>Method = ''POST'', URL = URL_String p endpoint,
         ContentType = FormDataContentType p w,
         Body = [FormFile ''file'' fi_Name content,
                 FormField ''minorEdit'' (FormatBool minorEdit)]\<rparr>) = Inr res \<longrightarrow>
      UpdateAttachment c p contentID attachmentID path minorEdit w =
        (Unmarshal_Attachment p res,
         w @ [SendRequest \<lparr>Method = ''POST'', URL = URL_String p endpoint,
                ContentType = FormDataContentType p w,
                Body = [FormFile ''file'' fi_Name content,
                        FormField ''minorEdit'' (FormatBool minorEdit)]\<rparr>])) \<and>
   (Close_err p [FormFile ''file'' fi_Name content] = None \<and>
    newAttachmentEndpoint c p contentID = Inr endpoint' \<and>
    NewRequest_err p ''POST'' (URL_String p endpoint') = None \<and>
    transport c w
      (SendRequest \<lparr>Method = ''POST'', URL = URL_String p endpoint',
         ContentType = FormDataContentType p w,
         Body = [FormFile ''file'' fi_Name content]\<rparr>) = Inr res' \<longrightarrow>
      AddAttachment c p contentID path w =
        ((case Unmarshal_Attachments p res' of
            Inl err \<Rightarrow> Inl err
          | Inr attachments \<Rightarrow>
              (case Results attachments of [] \<Rightarrow> Inl EmptyList | a # _ \<Rightarrow> Inr a)),
         w @ [SendRequest \<lparr>Method = ''POST'', URL = URL_String p endpoint',
                ContentType = FormDataContentType p w,
                Body = [FormFile ''file'' fi_Name content]\<rparr>]))"
proof (intro conjI impI)
  assume "WriteField_err p ''minorEdit'' (FormatBool minorEdit) = None \<and>
    Close_err p [FormFile ''file'' fi_Name content,
                 FormField ''minorEdit'' (FormatBool minorEdit)] = None \<and>
    attachmentDataEndpoint c p contentID attachmentID = Inr endpoint \<and>
    NewRequest_err p ''POST'' (URL_String p endpoint) = None \<and>
    transport c w
      (SendRequest \<lparr>Method = ''POST'', URL = URL_String p endpoint,
         ContentType = FormDataContentType p w,
         Body = [FormFile ''file'' fi_Name content,
                 FormField ''minorEdit'' (FormatBool minorEdit)]\<rparr>) = Inr res"
  with assms show "UpdateAttachment c p contentID attachmentID path minorEdit w =
        (Unmarshal_Attachment p res,
         w @ [SendRequest \<lparr>Method = ''POST'', URL = URL_String p endpoint,
                ContentType = FormDataContentType p w,
                Body = [FormFile ''file'' fi_Name content,
                        FormField ''minorEdit'' (FormatBool minorEdit)]\<rparr>])"
    by (simp add: UpdateAttachment_unfold upload_body_def post_request_def split: sum.split)
next
  assume "Close_err p [FormFile ''file'' fi_Name content] = None \<and>
    newAttachmentEndpoint c p contentID = Inr endpoint' \<and>
    NewRequest_err p ''POST'' (URL_String p endpoint') = None \<and>
    transport c w
      (SendRequest \<lparr>Method = ''POST'', URL = URL_String p endpoint',
         ContentType = FormDataContentType p w,
         Body = [FormFile ''file'' fi_Name content]\<rparr>) = Inr res'"
  with assms show "AddAttachment c p contentID path w =
        ((case Unmarshal_Attachments p res' of
            Inl err \<Rightarrow> Inl err
          | Inr attachments \<Rightarrow>
              (case Results attachments of [] \<Rightarrow> Inl EmptyList | a # _ \<Rightarrow> Inr a)),
         w @ [SendRequest \<lparr>Method = ''POST'', URL = URL_String p endpoint',
                ContentType = FormDataContentType p w,
                Body = [FormFile ''file'' fi_Name content]\<rparr>])"
    by (simp add: AddAttachment_unfold upload_body_def post_request_def decode_first_def)
qed

theorem Update_decodes_object_Add_decodes_list_witness:
  "UpdateAttachment (wiki (\<lambda>url. Inr ''empty'') (Inr ''obj:att9'')) sample_platform
     ''123'' ''9'' ''docs/a.png'' True [] =
     (Inr (sample_attachment ''att9''),
      [SendRequest \<lparr>Method = ''POST'',
         URL = ''http://wiki/rest/api/content/123/child/attachment/9/data'',
         ContentType = ''multipart/form-data; boundary=b0'',
         Body = [FormFile ''file'' ''a.png'' ''PNG'', FormField ''minorEdit'' ''true'']\<rparr>]) \<and>
   AddAttachment (wiki (\<lambda>url. Inr ''empty'') (Inr ''list:att777'')) sample_platform
     ''123'' ''docs/a.png'' [] =
     (Inr (sample_attachment ''att777''),
      [SendRequest \<lparr>Method = ''POST'',
         URL = ''http://wiki/rest/api/content/123/child/attachment'',
         ContentType = ''multipart/form-data; boundary=b0'',
         Body = [FormFile ''file'' ''a.png'' ''PNG'']\<rparr>]) \<and>
   AddAttachment (wiki (\<lambda>url. Inr ''empty'') (Inr ''empty'')) sample_platform
     ''123'' ''docs/a.png'' [] =
     (Inl EmptyList,
      [SendRequest \<lparr>Method = ''POST'',
         URL = ''http://wiki/rest/api/content/123/child/attachment'',
         ContentType = ''multipart/form-data; boundary=b0'',
         Body = [FormFile ''file'' ''a.png'' ''PNG'']\<rparr>])"
proof -
  let ?c = "wiki (\<lambda>url. Inr ''empty'') (Inr ''obj:att9'')"
  let ?d = "wiki (\<lambda>url. Inr ''empty'') (Inr ''list:att777'')"
  let ?e = "wiki (\<lambda>url. Inr ''empty'') (Inr ''empty'')"
  let ?data = "''http://wiki/rest/api/content/123/child/attachment/9/data''"
  let ?coll = "''http://wiki/rest/api/content/123/child/attachment''"
  let ?update = "SendRequest \<lparr>Method = ''POST'', URL = URL_String sample_platform ?data,
      ContentType = FormDataContentType sample_platform [],
      Body = [FormFile ''file'' ''a.png'' ''PNG'', FormField ''minorEdit'' (FormatBool True)]\<rparr>"
  let ?create = "SendRequest \<lparr>Method = ''POST'', URL = URL_String sample_platform ?coll,
      ContentType = FormDataContentType sample_platform [],
      Body = [FormFile ''file'' ''a.png'' ''PNG'']\<rparr>"
  have opened: "os_Open sample_platform ''docs/a.png'' = Inr (''a.png'', ''PNG'')"
    by (simp add: sample_platform_def)
  have stat: "File_Stat sample_platform (''a.png'', ''PNG'') = Inr ''a.png''"
    by (simp add: sample_platform_def)
  have part: "CreateFormFile_err sample_platform ''file'' ''a.png'' = None"
    by (simp add: sample_platform_def)
  have copied: "io_Copy sample_platform (''a.png'', ''PNG'') = Inr ''PNG''"
    by (simp add: sample_platform_def)
  note decoding = Update_decodes_object_Add_decodes_list [OF opened stat part copied]
  have updated:
    "WriteField_err sample_platform ''minorEdit'' (FormatBool True) = None \<and>
     Close_err sample_platform
       [FormFile ''file'' ''a.png'' ''PNG'', FormField ''minorEdit'' (FormatBool True)] = None \<and>
     attachmentDataEndpoint ?c sample_platform ''123'' ''9'' = Inr ?data \<and>
     NewRequest_err sample_platform ''POST'' (URL_String sample_platform ?data) = None \<and>
     transport ?c [] ?update = Inr ''obj:att9''"
    by (simp add: sample_defs)
  have created:
    "Close_err sample_platform [FormFile ''file'' ''a.png'' ''PNG''] = None \<and>
     newAttachmentEndpoint ?d sample_platform ''123'' = Inr ?coll \<and>
     NewRequest_err sample_platform ''POST'' (URL_String sample_platform ?coll) = None \<and>
     transport ?d [] ?create = Inr ''list:att777''"
    by (simp add: sample_defs)
  have nothing_created:
    "Close_err sample_platform [FormFile ''file'' ''a.png'' ''PNG''] = None \<and>
     newAttachmentEndpoint ?e sample_platform ''123'' = Inr ?coll \<and>
     NewRequest_err sample_platform ''POST'' (URL_String sample_platform ?coll) = None \<and>
     transport ?e [] ?create = Inr ''empty''"
    by (simp add: sample_defs)
  from decoding [THEN conjunct1, THEN mp, OF updated]
    decoding [THEN conjunct2, THEN mp, OF created]
    decoding [THEN conjunct2, THEN mp, OF nothing_created]
  show ?thesis by (simp add: sample_platform_def FormDataContentType_def FormatBool_def)
qed

text \<open>
  Claim C7: when the local file cannot be opened, or its \<open>Stat\<close> fails, or reading it into
  the file part fails, \<open>AddAttachment\<close> and \<open>UpdateAttachment\<close> return that error and the
  wire log is unchanged: nothing was handed to the transport.
\<close>

theorem local_failure_sends_nothing:
  assumes "os_Open p path = Inl err \<or>
     (\<exists>fl. os_Open p path = Inr fl \<and> File_Stat p fl = Inl err) \<or>
     (\<exists>fl fi_Name. os_Open p path = Inr fl \<and> File_Stat p fl = Inr fi_Name \<and>
        CreateFormFile_err p ''file'' fi_Name = None \<and> io_Copy p fl = Inl err)"
  shows "AddAttachment c p contentID path w = (Inl err, w) \<and>
         UpdateAttachment c p contentID attachmentID path minorEdit w = (Inl err, w)"
  by (simp add: AddAttachment_unfold UpdateAttachment_unfold upload_body_Inl [OF assms])

theorem local_failure_sends_nothing_witness:
  "AddAttachment (wiki (\<lambda>url. Inr ''empty'') (Inr ''empty'')) sample_platform
     ''123'' ''docs/missing.png'' [] = (Inl (IOError ''no such file or directory''), []) \<and>
   UpdateAttachment (wiki (\<lambda>url. Inr ''empty'') (Inr ''empty'')) sample_platform
     ''123'' ''42'' ''docs/missing.png'' True [] =
     (Inl (IOError ''no such file or directory''), [])"
proof -
  have missing: "os_Open sample_platform ''docs/missing.png'' =
      Inl (IOError ''no such file or directory'')"
    by (simp add: sample_platform_def)
  show ?thesis by (rule local_failure_sends_nothing [OF disjI1 [OF missing]])
qed

text \<open>
  Claim C8: the endpoint builder is injective on well-formed inputs: two different
  well-formed pairs of content and attachment identifier are both given a URL, namely
  \<open>{base}/content/{C}/child/attachment/{A}\<close>, and the two URLs differ.
\<close>

theorem attachmentEndpoint_injective:
  assumes "wellformed_pair c p contentID attachmentID"
    and "wellformed_pair c p contentID' attachmentID'"
    and "(contentID, attachmentID) \<noteq> (contentID', attachmentID')"
  shows "\<exists>u u'. attachmentEndpoint c p contentID attachmentID = Inr u \<and>
                attachmentEndpoint c p contentID' attachmentID' = Inr u' \<and>
                URL_String p u = attachment_url c contentID attachmentID \<and>
                URL_String p u' = attachment_url c contentID' attachmentID' \<and>
                URL_String p u \<noteq> URL_String p u'"
proof -
  from assms(1) obtain u where u: "attachmentEndpoint c p contentID attachmentID = Inr u"
      "URL_String p u = attachment_url c contentID attachmentID"
    using prints_back_attachmentEndpoint [of p c contentID attachmentID]
    by (auto simp: wellformed_pair_def)
  from assms(2) obtain u' where u': "attachmentEndpoint c p contentID' attachmentID' = Inr u'"
      "URL_String p u' = attachment_url c contentID' attachmentID'"
    using prints_back_attachmentEndpoint [of p c contentID' attachmentID']
    by (auto simp: wellformed_pair_def)
  have "URL_String p u \<noteq> URL_String p u'"
  proof
    assume "URL_String p u = URL_String p u'"
    with u(2) u'(2) have
      "contentID @ CHR ''/'' # (''child/attachment/'' @ attachmentID) =
       contentID' @ CHR ''/'' # (''child/attachment/'' @ attachmentID')"
      by (simp add: attachment_url_def collection_url_def)
    moreover from assms(1,2) have "CHR ''/'' \<notin> set contentID" "CHR ''/'' \<notin> set contentID'"
      by (simp_all add: wellformed_pair_def)
    ultimately have "contentID = contentID' \<and> attachmentID = attachmentID'"
      using segment_unique by blast
    with assms(3) show False by simp
  qed
  with u u' show ?thesis by blast
qed

theorem attachmentEndpoint_injective_witness:
  "wellformed_pair (wiki (\<lambda>url. Inr ''empty'') (Inr ''empty'')) sample_platform ''123'' ''att1'' \<and>
   wellformed_pair (wiki (\<lambda>url. Inr ''empty'') (Inr ''empty'')) sample_platform ''124'' ''att1'' \<and>
   attachmentEndpoint (wiki (\<lambda>url. Inr ''empty'') (Inr ''empty'')) sample_platform
     ''123'' ''att1'' \<noteq>
   attachmentEndpoint (wiki (\<lambda>url. Inr ''empty'') (Inr ''empty'')) sample_platform
     ''124'' ''att1''"
proof -
  let ?c = "wiki (\<lambda>url. Inr ''empty'') (Inr ''empty'')"
  have wf: "wellformed_pair ?c sample_platform ''123'' ''att1''"
    by (simp add: wellformed_pair_def prints_back_def attachment_url_def collection_url_def
        sample_defs)
  have wf': "wellformed_pair ?c sample_platform ''124'' ''att1''"
    by (simp add: wellformed_pair_def prints_back_def attachment_url_def collection_url_def
        sample_defs)
  have ne: "(''123'', ''att1'') \<noteq> (''124'', ''att1'')" by simp
  from attachmentEndpoint_injective [OF wf wf' ne]
  have "attachmentEndpoint ?c sample_platform ''123'' ''att1'' \<noteq>
        attachmentEndpoint ?c sample_platform ''124'' ''att1''"
    by auto
  with wf wf' show ?thesis by (intro conjI)
qed

text \<open>
  Without the condition on slashes the builder is not injective: a content identifier that
  holds a slash can take over part of the path.
\<close>

lemma attachmentEndpoint_collides_on_slash:
  "attachmentEndpoint (wiki (\<lambda>url. Inr ''empty'') (Inr ''empty'')) sample_platform
     ''1/child/attachment/2'' ''3'' =
   attachmentEndpoint (wiki (\<lambda>url. Inr ''empty'') (Inr ''empty'')) sample_platform
     ''1'' ''2/child/attachment/3''"
  by (simp add: sample_defs)

text \<open>
  Claim C9: the outcome of \<open>GetAttachment\<close>, \<open>GetAttachmentByFilename\<close> and
  \<open>AddAttachment\<close> does not depend on the size an envelope reports: whatever value is put
  in the size field of every decoded envelope, each operation returns the same result and
  makes the same calls.
\<close>

theorem size_field_is_ignored:
  "GetAttachment c (override_size g p) contentID attachmentID w =
     GetAttachment c p contentID attachmentID w \<and>
   GetAttachmentByFilename c (override_size g p) contentID filename w =
     GetAttachmentByFilename c p contentID filename w \<and>
   AddAttachment c (override_size g p) contentID path w =
     AddAttachment c p contentID path w"
  by (simp add: GetAttachment_unfold GetAttachmentByFilename_unfold AddAttachment_unfold
      decode_first_override_size endpoints_override_size others_override_size
      override_size_fields cong: sum.case_cong option.case_cong)

text \<open>
  Claim C10: when the files before \<open>f\<close> have been processed and the lookup of \<open>f\<close> succeeds,
  then, if the found identifier has fewer than three characters, the whole call panics on
  the slice (nothing is returned, neither the earlier outcomes nor an error for \<open>f\<close>), and
  otherwise the slice is safe: \<open>UpdateAttachment\<close> runs, its outcome is recorded and the
  loop goes on with the later files.
\<close>

theorem short_id_aborts_the_batch:
  assumes "AddUpdateAttachments_loop c p contentID earlier [] [] w0 = (Inr (results, errors), w)"
    and "GetAttachmentByFilename c p contentID (path_Base f) w = (Inr a, w1)"
  shows "AddUpdateAttachments c p contentID (earlier @ f # later) w0 =
           (if length (Id' a) < 3 then (Inl (SliceBoundsOutOfRange 3 (length (Id' a))), w1)
            else case UpdateAttachment c p contentID (drop 3 (Id' a)) f True w1 of
                   (Inr attachment, w2) \<Rightarrow>
                     AddUpdateAttachments_loop c p contentID later
                       (results @ [attachment]) errors w2
                 | (Inl err, w2) \<Rightarrow>
                     AddUpdateAttachments_loop c p contentID later
                       results (errors @ [err]) w2)"
  by (simp add: AddUpdateAttachments_def AddUpdateAttachments_loop_append assms(1)
      AddUpdateAttachments_file_found [OF assms(2)] split: prod.split sum.split)

theorem short_id_aborts_the_batch_witness:
  "AddUpdateAttachments
     (wiki (\<lambda>url. if url = ''http://wiki/rest/api/content/123/child/attachment?filename=b.png''
                    then Inr ''list:at'' else Inr ''empty'') (Inr ''list:att777''))
     sample_platform ''123'' ([''docs/a.png''] @ ''docs/b.png'' # [''docs/a.png'']) [] =
   (Inl (SliceBoundsOutOfRange 3 2),
    [Request ''GET'' ''http://wiki/rest/api/content/123/child/attachment?filename=a.png''
       [] [],
     SendRequest \<lparr>Method = ''POST'',
       URL = ''http://wiki/rest/api/content/123/child/attachment'',
       ContentType = ''multipart/form-data; boundary=b0'',
       Body = [FormFile ''file'' ''a.png'' ''PNG'']\<rparr>,
     Request ''GET'' ''http://wiki/rest/api/content/123/child/attachment?filename=b.png''
       [] []])"
proof -
  let ?c = "wiki (\<lambda>url. if url = ''http://wiki/rest/api/content/123/child/attachment?filename=b.png''
                    then Inr ''list:at'' else Inr ''empty'') (Inr ''list:att777'')"
  let ?w = "[Request ''GET'' ''http://wiki/rest/api/content/123/child/attachment?filename=a.png''
       [] [],
     SendRequest \<lparr>Method = ''POST'',
       URL = ''http://wiki/rest/api/content/123/child/attachment'',
       ContentType = ''multipart/form-data; boundary=b0'',
       Body = [FormFile ''file'' ''a.png'' ''PNG'']\<rparr>]"
  have earlier: "AddUpdateAttachments_loop ?c sample_platform ''123'' [''docs/a.png''] [] [] [] =
      (Inr ([sample_attachment ''att777''], []), ?w)"
    by (simp add: operation_defs sample_defs)
  have lookup: "GetAttachmentByFilename ?c sample_platform ''123'' (path_Base ''docs/b.png'') ?w =
      (Inr (sample_attachment ''at''),
       ?w @ [Request ''GET''
               ''http://wiki/rest/api/content/123/child/attachment?filename=b.png'' [] []])"
    by (simp add: operation_defs sample_defs)
  from short_id_aborts_the_batch [OF earlier lookup, where later = "[''docs/a.png'']"]
  show ?thesis by (simp add: sample_attachment_def)
qed

end
